theory Spec2Isabelle
  imports Complex_Main "HOL-Library.Sublist" "HOL-Library.AList"
begin

section \<open>Impurity radiation heat sink: constant fraction of the total input power\<close>

text \<open>
  A shallow embedding of
  \<^verbatim>\<open>torax/sources/impurity_radiation_heat_sink/impurity_radiation_constant_fraction.py\<close>
  and \<^verbatim>\<open>torax/sources/pydantic_model.py\<close>.

  Conventions of the embedding.
  \<^item> A one-dimensional JAX array is a \<open>real list\<close>. Floating-point numbers are idealised
    as reals: rounding, infinities and NaN are not represented, so every statement that
    divides by the total volume is made for a nonzero volume only.
  \<^item> A Python \<open>dict\<close> whose iteration order is observable is an association list in
    insertion order; a \<open>dict\<close> that is only indexed is a map.
  \<^item> Every \<open>raise\<close> is a value \<open>Inl e\<close> of the result type \<open>error + 'a\<close>.
\<close>

subsection \<open>Errors\<close>

datatype error =
    KeyError string
  | AssertionError
  | ValueError string
  | TypeError string
  | IndexError
  | AttributeError string
  | ValidationError string

subsection \<open>Arrays\<close>

type_synonym array = "real list"

definition zeros_like :: "array \<Rightarrow> array" where
  "zeros_like a = replicate (length a) 0"

definition ones_like :: "array \<Rightarrow> array" where
  "ones_like a = replicate (length a) 1"

text \<open>
  Elementwise binary operations on one-dimensional arrays follow the broadcasting rule
  of \<open>jax.numpy\<close>: equal lengths combine pointwise, a length-one operand is stretched,
  and any other pair of shapes raises.
\<close>

definition broadcast :: "(real \<Rightarrow> real \<Rightarrow> real) \<Rightarrow> array \<Rightarrow> array \<Rightarrow> error + array" where
  "broadcast f xs ys =
     (if length xs = length ys then Inr (map2 f xs ys)
      else if length xs = 1 then Inr (map (f (hd xs)) ys)
      else if length ys = 1 then Inr (map (\<lambda>x. f x (hd ys)) xs)
      else Inl (TypeError ''incompatible shapes for broadcasting''))"

definition array_add :: "array \<Rightarrow> array \<Rightarrow> error + array" where
  "array_add = broadcast (+)"

definition array_mul :: "array \<Rightarrow> array \<Rightarrow> error + array" where
  "array_mul = broadcast (*)"

definition scalar_mul :: "real \<Rightarrow> array \<Rightarrow> array" where
  "scalar_mul c xs = map (\<lambda>x. c * x) xs"

text \<open>\<open>a[-1]\<close>: the last element; indexing an empty array raises.\<close>

definition index_last :: "array \<Rightarrow> error + real" where
  "index_last a = (if a = [] then Inl IndexError else Inr (last a))"

subsection \<open>Geometry, source profiles and runtime parameters\<close>

text \<open>
  The fields of \<open>geometry.Geometry\<close> that the model function reads: the radial coordinate
  of the cells \<open>rho\<close>, the per-cell volume derivative \<open>vpr\<close>, the cumulative volume on the
  faces \<open>volume_face\<close>, and the grid spacing \<open>drho_norm\<close> used by the cell integration.
\<close>

record Geometry =
  rho :: array
  vpr :: array
  volume_face :: array
  drho_norm :: real

text \<open>
  Modelled from the spec: \<open>math_utils.cell_integration\<close> is not part of the sources at
  hand. The specification describes it as the numerical quadrature of a cell quantity over
  the radial cells of the grid, producing one scalar: the sum over the cells of the value
  times the cell width.
\<close>

definition cell_integration :: "array \<Rightarrow> Geometry \<Rightarrow> real" where
  "cell_integration x geo = sum_list (map (\<lambda>v. v * drho_norm geo) x)"

text \<open>
  \<open>source_profiles.SourceProfiles\<close>: for the electron and the ion heat equation, a
  dictionary from source name to the per-cell profile of that source.
\<close>

record SourceProfiles =
  temp_el :: "(string \<times> array) list"
  temp_ion :: "(string \<times> array) list"

text \<open>\<open>DynamicRuntimeParams\<close> of this source (a frozen dataclass).\<close>

record DynamicRuntimeParams =
  fraction_of_total_power_density :: real

text \<open>
  The entries of \<open>dynamic_runtime_params_slice.sources\<close> are the dynamic parameters of
  all configured sources; \<open>isinstance\<close> tells those of this model from all others.
\<close>

datatype SourceDynamicRuntimeParams =
    ConstantFractionParams DynamicRuntimeParams
  | OtherSourceParams

record DynamicRuntimeParamsSlice =
  sources :: "string \<rightharpoonup> SourceDynamicRuntimeParams"

subsection \<open>The model function\<close>

definition MODEL_FUNCTION_NAME :: string where
  "MODEL_FUNCTION_NAME = ''radially_constant_fraction_of_Pin''"

definition missing_profiles_message :: string where
  "missing_profiles_message =
     ''calculated_source_profiles is a required argument for'' @
     '' `radially_constant_fraction_of_Pin`. This can occur if this source'' @
     '' function is used in an explicit source.''"

text \<open>\<open>'sink' in source_name\<close>: the substring test on the name.\<close>

definition is_sink :: "string \<Rightarrow> bool" where
  "is_sink source_name = sublist ''sink'' source_name"

text \<open>
  One of the two loops
  \<^verbatim>\<open>for source_name in profiles: if 'sink' not in source_name: source_profiles += profiles[source_name]\<close>
  over the keys of a dictionary, with the accumulator passed along.
\<close>

fun sum_non_sink :: "(string \<times> array) list \<Rightarrow> string list \<Rightarrow> array \<Rightarrow> error + array" where
  "sum_non_sink profiles [] source_profiles = Inr source_profiles"
| "sum_non_sink profiles (source_name # names) source_profiles =
     (if \<not> is_sink source_name then
        (case map_of profiles source_name of
           None \<Rightarrow> Inl (KeyError source_name)
         | Some p \<Rightarrow>
             (case array_add source_profiles p of
                Inl e \<Rightarrow> Inl e
              | Inr acc \<Rightarrow> sum_non_sink profiles names acc))
      else sum_non_sink profiles names source_profiles)"

text \<open>Lines 78 to 86: \<open>Qtot_in\<close>, the sum of the heating input of both heat equations.\<close>

definition Qtot_in :: "Geometry \<Rightarrow> SourceProfiles \<Rightarrow> error + array" where
  "Qtot_in geo calculated_source_profiles =
     (case sum_non_sink (temp_el calculated_source_profiles)
             (map fst (temp_el calculated_source_profiles)) (zeros_like (rho geo)) of
        Inl e \<Rightarrow> Inl e
      | Inr acc \<Rightarrow>
          sum_non_sink (temp_ion calculated_source_profiles)
            (map fst (temp_ion calculated_source_profiles)) acc)"

text \<open>
  The model function. The two unused arguments keep their place; the result is the tuple
  of profiles, one per affected equation.
\<close>

definition radially_constant_fraction_of_Pin ::
  "'static \<Rightarrow> DynamicRuntimeParamsSlice \<Rightarrow> Geometry \<Rightarrow> string \<Rightarrow> 'core \<Rightarrow>
   SourceProfiles option \<Rightarrow> error + array list" where
  "radially_constant_fraction_of_Pin unused_static_runtime_params_slice
     dynamic_runtime_params_slice geo source_name unused_core_profiles
     calculated_source_profiles =
     (case sources dynamic_runtime_params_slice source_name of
        None \<Rightarrow> Inl (KeyError source_name)
      | Some OtherSourceParams \<Rightarrow> Inl AssertionError
      | Some (ConstantFractionParams dynamic_source_runtime_params) \<Rightarrow>
          (case calculated_source_profiles of
             None \<Rightarrow> Inl (ValueError missing_profiles_message)
           | Some profiles \<Rightarrow>
               (case Qtot_in geo profiles of
                  Inl e \<Rightarrow> Inl e
                | Inr Q \<Rightarrow>
                    (case array_mul Q (vpr geo) of
                       Inl e \<Rightarrow> Inl e
                     | Inr Qv \<Rightarrow>
                         (case index_last (volume_face geo) of
                            Inl e \<Rightarrow> Inl e
                          | Inr Vtot \<Rightarrow>
                              Inr [scalar_mul
                                     (- fraction_of_total_power_density
                                          dynamic_source_runtime_params
                                        * cell_integration Qv geo / Vtot)
                                     (ones_like (rho geo))])))))"

text \<open>The governing equations a source may contribute to.\<close>

datatype AffectedCoreProfile = PSI | NE | TEMP_ION | TEMP_EL

text \<open>
  Modelled from the spec: the equations a source contributes to are declared by the source
  class (\<open>affected_core_profiles\<close>), which is not part of the sources at hand. The
  specification and the docstring of the model function give the electron heat equation
  as the only one; the returned tuple is aligned with this list.
\<close>

definition affected_core_profiles :: "AffectedCoreProfile list" where
  "affected_core_profiles = [TEMP_EL]"

subsection \<open>Well-shaped inputs\<close>

text \<open>
  The profiles are per-cell arrays: the volume derivative and every profile that the
  aggregation reads have one value per cell of \<open>rho\<close>, and the face grid is not empty.
  Profiles of sinks are never read, so nothing is asked of them.
\<close>

definition well_shaped :: "Geometry \<Rightarrow> SourceProfiles \<Rightarrow> bool" where
  "well_shaped geo profiles \<longleftrightarrow>
     length (vpr geo) = length (rho geo) \<and> volume_face geo \<noteq> [] \<and>
     list_all (\<lambda>(name, p). is_sink name \<or> length p = length (rho geo)) (temp_el profiles) \<and>
     list_all (\<lambda>(name, p). is_sink name \<or> length p = length (rho geo)) (temp_ion profiles)"

text \<open>
  The aggregate as the specification words it: at every cell, the sum of the profiles of
  the entries whose name is not tagged as a sink.
\<close>

definition spec_non_sink_sum :: "nat \<Rightarrow> (string \<times> array) list \<Rightarrow> array" where
  "spec_non_sink_sum n profiles =
     map (\<lambda>i. \<Sum>(name, p) \<leftarrow> filter (\<lambda>(name, p). \<not> is_sink name) profiles. p ! i) [0..<n]"

subsection \<open>A small scenario\<close>

text \<open>
  Four uniform cells on the unit interval with unit volume derivative, so that the
  enclosed volume is 1: non-uniform electron and ion heating, one sink already present
  in the container, and a sink fraction of one fifth.
\<close>

definition example_geo :: Geometry where
  "example_geo =
     \<lparr>rho = [1/8, 3/8, 5/8, 7/8], vpr = [1, 1, 1, 1],
      volume_face = [0, 1/4, 1/2, 3/4, 1], drho_norm = 1/4\<rparr>"

definition example_profiles :: SourceProfiles where
  "example_profiles =
     \<lparr>temp_el = [(''ohmic_heat_source'', [1, 2, 3, 6]),
                 (''bremsstrahlung_heat_sink'', [-9, -9, -9, -9]),
                 (''generic_ion_el_heat_source'', [1, 1, 1, 1])],
      temp_ion = [(''generic_ion_el_heat_source'', [2, 1, 0, 1])]\<rparr>"

definition example_params :: DynamicRuntimeParams where
  "example_params = \<lparr>fraction_of_total_power_density = 1/5\<rparr>"

definition example_slice :: DynamicRuntimeParamsSlice where
  "example_slice =
     \<lparr>sources = [''impurity_radiation_heat_sink'' \<mapsto> ConstantFractionParams example_params,
                 ''ohmic_heat_source'' \<mapsto> OtherSourceParams]\<rparr>"

text \<open>The slice in which the dynamic parameters of the source hold the fraction \<open>f\<close>.\<close>

definition with_fraction ::
  "(string \<rightharpoonup> SourceDynamicRuntimeParams) \<Rightarrow> string \<Rightarrow> real \<Rightarrow> DynamicRuntimeParamsSlice" where
  "with_fraction others source_name f =
     \<lparr>sources = others(source_name \<mapsto>
        ConstantFractionParams \<lparr>fraction_of_total_power_density = f\<rparr>)\<rparr>"

text \<open>Two cells and the container \<open>{A: [1, 2], B: [3, 4]}\<close> for the electron heat.\<close>

definition example_two_cells :: Geometry where
  "example_two_cells = \<lparr>rho = [1/4, 3/4], vpr = [1, 1], volume_face = [0, 1/2, 1], drho_norm = 1/2\<rparr>"

definition example_A_B :: SourceProfiles where
  "example_A_B = \<lparr>temp_el = [(''A'', [1, 2]), (''B'', [3, 4])], temp_ion = []\<rparr>"

section \<open>Configuration of the sources\<close>

subsection \<open>Raw specifications\<close>

text \<open>
  A raw specification is a nested structure of Python values; a \<open>dict\<close> is an association
  list in insertion order, read with \<open>map_of\<close> and written with \<open>AList.update\<close>, which
  replaces the value of a present key in place and appends an absent one.
\<close>

datatype pyval =
    PNone
  | PBool bool
  | PNum real
  | PStr string
  | PList "pyval list"
  | PDict "(string \<times> pyval) list"

type_synonym pydict = "(string \<times> pyval) list"

subsection \<open>Time-varying scalars\<close>

text \<open>
  Modelled from the spec: \<open>torax_pydantic.TimeVaryingScalar\<close> and the interpolators of
  \<open>interpolated_param\<close> are not part of the sources at hand. The specification describes a
  time-varying value as an ordered sequence of (time, value) samples with an
  interpolation mode; a constant is the single-sample series; a series whose times are
  not strictly increasing or whose shapes do not match fails at construction; outside the
  sampled range the value is that of the nearest boundary sample.
\<close>

datatype InterpolationMode = STEP | PIECEWISE_LINEAR

record TimeVaryingScalar =
  time :: "real list"
  "value" :: "real list"
  interpolation_mode :: InterpolationMode

text \<open>
  Modelled from the spec: the construction of a time-varying scalar from a raw value,
  either a literal scalar or a time series \<open>{time: [...], value: [...], interpolation_mode: ...}\<close>;
  a malformed series is rejected here, not at evaluation.
\<close>

fun as_floats :: "pyval list \<Rightarrow> real list option" where
  "as_floats [] = Some []"
| "as_floats (PNum x # vs) = map_option ((#) x) (as_floats vs)"
| "as_floats (v # vs) = None"

definition validate_InterpolationMode :: "pyval option \<Rightarrow> error + InterpolationMode" where
  "validate_InterpolationMode v =
     (case v of
        None \<Rightarrow> Inr PIECEWISE_LINEAR
      | Some (PStr s) \<Rightarrow>
          if s = ''STEP'' then Inr STEP
          else if s = ''PIECEWISE_LINEAR'' then Inr PIECEWISE_LINEAR
          else Inl (ValidationError ''interpolation_mode'')
      | Some _ \<Rightarrow> Inl (ValidationError ''interpolation_mode''))"

definition validate_TimeVaryingScalar :: "pyval \<Rightarrow> error + TimeVaryingScalar" where
  "validate_TimeVaryingScalar v =
     (case v of
        PNum x \<Rightarrow> Inr \<lparr>time = [0], value = [x], interpolation_mode = PIECEWISE_LINEAR\<rparr>
      | PDict d \<Rightarrow>
          (case (map_of d ''time'', map_of d ''value'') of
             (Some (PList ts), Some (PList vs)) \<Rightarrow>
               (case (as_floats ts, as_floats vs,
                      validate_InterpolationMode (map_of d ''interpolation_mode'')) of
                  (Some ts', Some vs', Inr m) \<Rightarrow>
                    if ts' \<noteq> [] \<and> length ts' = length vs' \<and> sorted_wrt (<) ts'
                    then Inr \<lparr>time = ts', value = vs', interpolation_mode = m\<rparr>
                    else Inl (ValidationError ''malformed time series'')
                | _ \<Rightarrow> Inl (ValidationError ''malformed time series''))
           | _ \<Rightarrow> Inl (ValidationError ''malformed time series''))
      | _ \<Rightarrow> Inl (ValidationError ''not a time-varying scalar''))"

text \<open>
  Modelled from the spec: the evaluation at a time \<open>t\<close>. Before the first and after the
  last sample the value is that of the boundary sample; in between it is the value of the
  sample to the left (step) or the linear interpolant of the two neighbours.
\<close>

fun interpolate_step :: "(real \<times> real) list \<Rightarrow> real \<Rightarrow> error + real" where
  "interpolate_step [] t = Inl (ValueError ''empty time series'')"
| "interpolate_step [(t0, v0)] t = Inr v0"
| "interpolate_step ((t0, v0) # (t1, v1) # rest) t =
     (if t < t1 then Inr v0 else interpolate_step ((t1, v1) # rest) t)"

fun interpolate_linear :: "(real \<times> real) list \<Rightarrow> real \<Rightarrow> error + real" where
  "interpolate_linear [] t = Inl (ValueError ''empty time series'')"
| "interpolate_linear [(t0, v0)] t = Inr v0"
| "interpolate_linear ((t0, v0) # (t1, v1) # rest) t =
     (if t \<le> t0 then Inr v0
      else if t < t1 then Inr (v0 + (v1 - v0) * (t - t0) / (t1 - t0))
      else interpolate_linear ((t1, v1) # rest) t)"

definition get_value :: "TimeVaryingScalar \<Rightarrow> real \<Rightarrow> error + real" where
  "get_value x t =
     (case interpolation_mode x of
        STEP \<Rightarrow> interpolate_step (zip (time x) (value x)) t
      | PIECEWISE_LINEAR \<Rightarrow> interpolate_linear (zip (time x) (value x)) t)"

subsection \<open>The configuration of the constant-fraction model\<close>

text \<open>
  Modelled from the spec: the enumeration \<open>runtime_params_lib.Mode\<close> is not part of the
  sources at hand. The specification lists the modes inactive, model-based and
  prescribed-value; a raw specification names a mode by its identifier.
\<close>

datatype Mode = ZERO | MODEL_BASED | PRESCRIBED

text \<open>Modelled from the spec: the mode named by a raw value.\<close>

definition validate_Mode :: "pyval \<Rightarrow> error + Mode" where
  "validate_Mode v =
     (case v of
        PStr s \<Rightarrow>
          if s = ''ZERO'' then Inr ZERO
          else if s = ''MODEL_BASED'' then Inr MODEL_BASED
          else if s = ''PRESCRIBED'' then Inr PRESCRIBED
          else Inl (ValidationError ''mode'')
      | _ \<Rightarrow> Inl (ValidationError ''mode''))"

text \<open>
  \<open>ImpurityRadiationHeatSinkConstantFractionConfig\<close> with the four fields that the class
  declares. The field names carry the prefix \<open>config_\<close>, the names of the record
  fields of a theory being global.
\<close>

record ImpurityRadiationHeatSinkConstantFractionConfig =
  config_source_name :: string
  config_model_func :: string
  config_fraction_of_total_power_density :: TimeVaryingScalar
  config_mode :: Mode

text \<open>A field of type \<open>Literal[lit]\<close> with default \<open>lit\<close>.\<close>

definition validate_Literal :: "string \<Rightarrow> string \<Rightarrow> pydict \<Rightarrow> error + string" where
  "validate_Literal field lit model =
     (case map_of model field of
        None \<Rightarrow> Inr lit
      | Some v \<Rightarrow> if v = PStr lit then Inr lit else Inl (ValidationError field))"

text \<open>\<open>torax_pydantic.ValidatedDefault(0.1)\<close>: the default is the validated literal.\<close>

definition ValidatedDefault_fraction :: "error + TimeVaryingScalar" where
  "ValidatedDefault_fraction = validate_TimeVaryingScalar (PNum (1/10))"

definition validate_ConstantFractionConfig ::
  "pydict \<Rightarrow> error + ImpurityRadiationHeatSinkConstantFractionConfig" where
  "validate_ConstantFractionConfig model =
     (case validate_Literal ''source_name'' ''impurity_radiation_heat_sink'' model of
        Inl e \<Rightarrow> Inl e
      | Inr source_name \<Rightarrow>
     (case validate_Literal ''model_func'' ''radially_constant_fraction_of_Pin'' model of
        Inl e \<Rightarrow> Inl e
      | Inr model_func \<Rightarrow>
     (case (case map_of model ''fraction_of_total_power_density'' of
              None \<Rightarrow> ValidatedDefault_fraction
            | Some v \<Rightarrow> validate_TimeVaryingScalar v) of
        Inl e \<Rightarrow> Inl e
      | Inr fraction \<Rightarrow>
     (case (case map_of model ''mode'' of
              None \<Rightarrow> Inr MODEL_BASED
            | Some v \<Rightarrow> validate_Mode v) of
        Inl e \<Rightarrow> Inl e
      | Inr mode \<Rightarrow>
          Inr \<lparr>config_source_name = source_name, config_model_func = model_func,
               config_fraction_of_total_power_density = fraction,
               config_mode = mode\<rparr>))))"

subsection \<open>The discriminated union of the impurity radiation configurations\<close>

text \<open>\<open>model.get('model_func', 'impurity_radiation_mavrin_fit')\<close>.\<close>

definition get_impurity_heat_sink_discriminator_value :: "pydict \<Rightarrow> pyval" where
  "get_impurity_heat_sink_discriminator_value model =
     (case map_of model ''model_func'' of
        Some v \<Rightarrow> v
      | None \<Rightarrow> PStr ''impurity_radiation_mavrin_fit'')"

text \<open>
  \<open>ImpurityRadiationHeatSinkConfig\<close>: the union of the two variants, each under its tag,
  with the callable discriminator. The mavrin-fit configuration lives in a module that is
  not at hand; its type and its validation are parameters.
\<close>

datatype 'mavrin ImpurityRadiationHeatSinkConfig =
    MavrinFit 'mavrin
  | ConstantFraction ImpurityRadiationHeatSinkConstantFractionConfig

definition validate_ImpurityRadiationHeatSinkConfig ::
  "(pydict \<Rightarrow> error + 'mavrin) \<Rightarrow> pydict \<Rightarrow> error + 'mavrin ImpurityRadiationHeatSinkConfig" where
  "validate_ImpurityRadiationHeatSinkConfig validate_MavrinFitConfig model =
     (case get_impurity_heat_sink_discriminator_value model of
        PStr tag \<Rightarrow>
          if tag = ''impurity_radiation_mavrin_fit''
          then map_sum id MavrinFit (validate_MavrinFitConfig model)
          else if tag = ''radially_constant_fraction_of_Pin''
          then map_sum id ConstantFraction (validate_ConstantFractionConfig model)
          else Inl (ValidationError ''union_tag_invalid'')
      | PNone \<Rightarrow> Inl (ValidationError ''union_tag_not_found'')
      | _ \<Rightarrow> Inl (ValidationError ''union_tag_invalid''))"

subsection \<open>The collection of sources\<close>






subsection \<open>Injection of the source name, as the specification words it\<close>



subsection \<open>Further scenarios\<close>


section \<open>Properties of the model function\<close>

lemma message_names_model_function:
  "sublist MODEL_FUNCTION_NAME missing_profiles_message"
  by code_simp

lemma array_add_same_length:
  "length xs = length ys \<Longrightarrow> array_add xs ys = Inr (map2 (+) xs ys)"
  by (simp add: array_add_def broadcast_def)

lemma array_mul_same_length:
  "length xs = length ys \<Longrightarrow> array_mul xs ys = Inr (map2 (*) xs ys)"
  by (simp add: array_mul_def broadcast_def)

lemma sum_non_sink_closed:
  assumes "\<forall>k\<in>set names. \<not> is_sink k \<longrightarrow>
             (\<exists>v. map_of profiles k = Some v \<and> length v = length acc)"
  shows "sum_non_sink profiles names acc =
           Inr (map (\<lambda>i. acc ! i +
                  (\<Sum>k \<leftarrow> filter (\<lambda>k. \<not> is_sink k) names. the (map_of profiles k) ! i))
                [0..<length acc])"
  using assms
proof (induction names arbitrary: acc)
  case Nil
  then show ?case by (simp add: map_nth)
next
  case (Cons k names)
  show ?case
  proof (cases "is_sink k")
    case True
    with Cons show ?thesis by simp
  next
    case False
    with Cons.prems obtain v where v: "map_of profiles k = Some v" "length v = length acc"
      by auto
    let ?acc = "map2 (+) acc v"
    have len: "length ?acc = length acc" using v by simp
    have step: "sum_non_sink profiles (k # names) acc = sum_non_sink profiles names ?acc"
      using False v by (simp add: array_add_same_length)
    have "\<forall>k\<in>set names. \<not> is_sink k \<longrightarrow>
             (\<exists>v. map_of profiles k = Some v \<and> length v = length ?acc)"
      using Cons.prems len by simp
    from Cons.IH [OF this] step len False v show ?thesis
      by (simp add: add.assoc)
  qed
qed

lemma sum_non_sink_length:
  assumes "\<forall>k\<in>set names. \<not> is_sink k \<longrightarrow>
             (\<exists>v. map_of profiles k = Some v \<and> length v = length acc)"
  shows "\<exists>r. sum_non_sink profiles names acc = Inr r \<and> length r = length acc"
  using sum_non_sink_closed [OF assms] by simp

lemma keys_per_cell:
  assumes "list_all (\<lambda>(name, p). is_sink name \<or> length p = n) profiles"
  shows "\<forall>k\<in>set (map fst profiles). \<not> is_sink k \<longrightarrow>
           (\<exists>v. map_of profiles k = Some v \<and> length v = n)"
proof (intro ballI impI)
  fix k assume k: "k \<in> set (map fst profiles)" and ns: "\<not> is_sink k"
  then obtain v where v: "map_of profiles k = Some v"
    by (metis map_of_eq_None_iff not_Some_eq set_map)
  then have "(k, v) \<in> set profiles" by (rule map_of_SomeD)
  with assms ns have "length v = n" by (auto simp: list_all_iff)
  with v show "\<exists>v. map_of profiles k = Some v \<and> length v = n" by simp
qed

lemma Qtot_in_returns:
  assumes "well_shaped geo profiles"
  shows "\<exists>Q. Qtot_in geo profiles = Inr Q \<and> length Q = length (rho geo)"
proof -
  let ?n = "length (rho geo)"
  have el: "list_all (\<lambda>(name, p). is_sink name \<or> length p = ?n) (temp_el profiles)"
    and ion: "list_all (\<lambda>(name, p). is_sink name \<or> length p = ?n) (temp_ion profiles)"
    using assms by (simp_all add: well_shaped_def)
  have z: "length (zeros_like (rho geo)) = ?n" by (simp add: zeros_like_def)
  from sum_non_sink_length [of "map fst (temp_el profiles)" "temp_el profiles" "zeros_like (rho geo)"]
    keys_per_cell [OF el] z
  obtain r where r: "sum_non_sink (temp_el profiles) (map fst (temp_el profiles))
      (zeros_like (rho geo)) = Inr r" "length r = ?n"
    by auto
  from sum_non_sink_length [of "map fst (temp_ion profiles)" "temp_ion profiles" r]
    keys_per_cell [OF ion] r
  obtain Q where "sum_non_sink (temp_ion profiles) (map fst (temp_ion profiles)) r = Inr Q"
    "length Q = ?n"
    by auto
  with r show ?thesis by (simp add: Qtot_in_def)
qed

lemma model_function_value:
  assumes params: "sources dyn source_name = Some (ConstantFractionParams dp)"
    and Q: "Qtot_in geo profiles = Inr Q"
    and len: "length Q = length (vpr geo)"
    and vf: "volume_face geo \<noteq> []"
  shows "radially_constant_fraction_of_Pin st dyn geo source_name core (Some profiles) =
           Inr [replicate (length (rho geo))
                  (- fraction_of_total_power_density dp
                     * cell_integration (map2 (*) Q (vpr geo)) geo
                     / last (volume_face geo))]"
  using assms
  by (simp add: radially_constant_fraction_of_Pin_def array_mul_same_length index_last_def
      scalar_mul_def ones_like_def)


lemma lookup_keys_distinct:
  assumes "distinct (map fst ps)"
  shows "map (\<lambda>k. g (the (map_of ps k))) (filter P (map fst ps)) =
         map (\<lambda>(k, v). g v) (filter (\<lambda>(k, v). P k) ps)"
  using assms
proof (induction ps)
  case Nil
  then show ?case by simp
next
  case (Cons kv ps)
  obtain a b where kv: "kv = (a, b)" by (cases kv)
  from Cons.prems kv have a: "a \<notin> set (map fst ps)" and d: "distinct (map fst ps)"
    by simp_all
  have "map (\<lambda>k. g (the (map_of (kv # ps) k))) (filter P (map fst ps)) =
        map (\<lambda>k. g (the (map_of ps k))) (filter P (map fst ps))"
    using a kv by (intro map_cong) auto
  with Cons.IH [OF d] kv show ?case by simp
qed

lemma Qtot_in_closed:
  assumes ws: "well_shaped geo profiles"
    and del: "distinct (map fst (temp_el profiles))"
    and dion: "distinct (map fst (temp_ion profiles))"
  shows "Qtot_in geo profiles =
           Inr (map2 (+) (spec_non_sink_sum (length (rho geo)) (temp_el profiles))
                         (spec_non_sink_sum (length (rho geo)) (temp_ion profiles)))"
proof -
  let ?n = "length (rho geo)"
  let ?ns = "\<lambda>k. \<not> is_sink k"
  have el: "list_all (\<lambda>(name, p). is_sink name \<or> length p = ?n) (temp_el profiles)"
    and ion: "list_all (\<lambda>(name, p). is_sink name \<or> length p = ?n) (temp_ion profiles)"
    using ws by (simp_all add: well_shaped_def)
  have z: "length (zeros_like (rho geo)) = ?n" by (simp add: zeros_like_def)
  have sum_el: "\<And>i. (\<Sum>k \<leftarrow> filter ?ns (map fst (temp_el profiles)).
                    the (map_of (temp_el profiles) k) ! i) =
                (\<Sum>(name, p) \<leftarrow> filter (\<lambda>(name, p). \<not> is_sink name) (temp_el profiles). p ! i)"
    using lookup_keys_distinct [OF del, of "\<lambda>v. v ! i" ?ns for i] by simp
  have sum_ion: "\<And>i. (\<Sum>k \<leftarrow> filter ?ns (map fst (temp_ion profiles)).
                    the (map_of (temp_ion profiles) k) ! i) =
                (\<Sum>(name, p) \<leftarrow> filter (\<lambda>(name, p). \<not> is_sink name) (temp_ion profiles). p ! i)"
    using lookup_keys_distinct [OF dion, of "\<lambda>v. v ! i" ?ns for i] by simp
  have first: "sum_non_sink (temp_el profiles) (map fst (temp_el profiles))
                 (zeros_like (rho geo)) = Inr (spec_non_sink_sum ?n (temp_el profiles))"
    using sum_non_sink_closed [of "map fst (temp_el profiles)" "temp_el profiles"
        "zeros_like (rho geo)"] keys_per_cell [OF el] z
    by (simp add: sum_el spec_non_sink_sum_def zeros_like_def cong: map_cong)
  have len: "length (spec_non_sink_sum ?n (temp_el profiles)) = ?n"
    by (simp add: spec_non_sink_sum_def)
  have second: "sum_non_sink (temp_ion profiles) (map fst (temp_ion profiles))
                  (spec_non_sink_sum ?n (temp_el profiles)) =
                Inr (map2 (+) (spec_non_sink_sum ?n (temp_el profiles))
                              (spec_non_sink_sum ?n (temp_ion profiles)))"
    using sum_non_sink_closed [of "map fst (temp_ion profiles)" "temp_ion profiles"
        "spec_non_sink_sum ?n (temp_el profiles)"] keys_per_cell [OF ion] len
    by (simp add: sum_ion) (auto simp: spec_non_sink_sum_def intro!: nth_equalityI)
  from first second show ?thesis by (simp add: Qtot_in_def)
qed

lemma example_names:
  "\<not> is_sink ''ohmic_heat_source''" "is_sink ''bremsstrahlung_heat_sink''"
  "\<not> is_sink ''generic_ion_el_heat_source''"
  by code_simp+

lemma example_params_present:
  "sources example_slice ''impurity_radiation_heat_sink'' =
     Some (ConstantFractionParams example_params)"
  by (simp add: example_slice_def)

lemma example_well_shaped: "well_shaped example_geo example_profiles"
  by (simp add: well_shaped_def example_geo_def example_profiles_def)

lemma example_Qtot_in: "Qtot_in example_geo example_profiles = Inr [4, 4, 4, 8]"
  by (simp add: Qtot_in_def example_geo_def example_profiles_def example_names
      zeros_like_def array_add_def broadcast_def)

lemma example_result:
  "radially_constant_fraction_of_Pin () example_slice example_geo
     ''impurity_radiation_heat_sink'' () (Some example_profiles) = Inr [[-1, -1, -1, -1]]"
proof -
  have len: "length [4, 4, 4, 8 :: real] = length (vpr example_geo)"
    and vf: "volume_face example_geo \<noteq> []"
    by (simp_all add: example_geo_def)
  have P: "cell_integration (map2 (*) [4, 4, 4, 8] (vpr example_geo)) example_geo = 5"
    by (simp add: example_geo_def cell_integration_def)
  have n: "replicate (length (rho example_geo)) x = [x, x, x, x]" for x :: real
    by (simp add: example_geo_def)
  show ?thesis
    unfolding model_function_value [OF example_params_present example_Qtot_in len vf] P n
    by (simp add: example_geo_def example_params_def)
qed

lemma cell_integration_zero:
  "cell_integration (map2 (*) (replicate n 0) xs) geo = 0"
proof (induction n arbitrary: xs)
  case 0
  then show ?case by (simp add: cell_integration_def)
next
  case (Suc n)
  then show ?case by (cases xs) (simp_all add: cell_integration_def)
qed

subsection \<open>The sink profile\<close>

text \<open>
  Claim C1. With a container present, well-shaped inputs and a nonzero total volume, the
  returned profile has the value \<open>- fraction * P_in / V_tot\<close> at every cell, where \<open>P_in\<close> is
  the cell integration of \<open>Q_in * geo.vpr\<close> and \<open>V_tot\<close> is \<open>geo.volume_face[-1]\<close>.
\<close>

theorem uniform_sink_profile:
  assumes "sources dyn source_name = Some (ConstantFractionParams dp)"
    and "well_shaped geo profiles"
    and "last (volume_face geo) \<noteq> 0"
  shows "\<exists>Q. Qtot_in geo profiles = Inr Q \<and>
           radially_constant_fraction_of_Pin st dyn geo source_name core (Some profiles) =
             Inr [replicate (length (rho geo))
                    (- fraction_of_total_power_density dp
                       * cell_integration (map2 (*) Q (vpr geo)) geo
                       / last (volume_face geo))]"
proof -
  from Qtot_in_returns [OF assms(2)] obtain Q
    where Q: "Qtot_in geo profiles = Inr Q" and lenQ: "length Q = length (rho geo)"
    by blast
  from assms(2) have lenv: "length (vpr geo) = length (rho geo)" and vf: "volume_face geo \<noteq> []"
    unfolding well_shaped_def by blast+
  from lenQ lenv have len: "length Q = length (vpr geo)" by (rule trans [OF _ sym])
  show ?thesis
    by (rule exI [of _ Q], rule conjI [OF Q], rule model_function_value [OF assms(1) Q len vf])
qed

theorem uniform_sink_profile_witness:
  "sources example_slice ''impurity_radiation_heat_sink'' =
     Some (ConstantFractionParams example_params) \<and>
   well_shaped example_geo example_profiles \<and>
   last (volume_face example_geo) \<noteq> 0 \<and>
   radially_constant_fraction_of_Pin () example_slice example_geo
     ''impurity_radiation_heat_sink'' () (Some example_profiles) = Inr [[-1, -1, -1, -1]]"
proof -
  have v: "last (volume_face example_geo) \<noteq> 0" by (simp add: example_geo_def)
  from uniform_sink_profile [OF example_params_present example_well_shaped v, of "()" "()"]
  obtain Q where Q: "Qtot_in example_geo example_profiles = Inr Q"
    and r: "radially_constant_fraction_of_Pin () example_slice example_geo
          ''impurity_radiation_heat_sink'' () (Some example_profiles) =
        Inr [replicate (length (rho example_geo))
               (- fraction_of_total_power_density example_params
                  * cell_integration (map2 (*) Q (vpr example_geo)) example_geo
                  / last (volume_face example_geo))]"
    by blast
  from Q have Q4: "Q = [4, 4, 4, 8]" by (simp add: example_Qtot_in)
  have P: "cell_integration (map2 (*) [4, 4, 4, 8] (vpr example_geo)) example_geo = 5"
    by (simp add: example_geo_def cell_integration_def)
  have n: "replicate (length (rho example_geo)) x = [x, x, x, x]" for x :: real
    by (simp add: example_geo_def)
  have "radially_constant_fraction_of_Pin () example_slice example_geo
          ''impurity_radiation_heat_sink'' () (Some example_profiles) = Inr [[-1, -1, -1, -1]]"
    unfolding r Q4 P n by (simp add: example_geo_def example_params_def)
  with example_params_present example_well_shaped v show ?thesis by simp
qed

text \<open>
  Claim C2. The aggregate \<open>Q_in\<close> is the elementwise sum, over the electron-heat and the
  ion-heat mapping, of exactly the entries whose name is not tagged as a sink; an
  additional sink entry changes nothing, whatever its value.
\<close>

theorem aggregate_excludes_sinks:
  assumes "well_shaped geo profiles"
    and "distinct (map fst (temp_el profiles))"
    and "distinct (map fst (temp_ion profiles))"
  shows "Qtot_in geo profiles =
           Inr (map2 (+) (spec_non_sink_sum (length (rho geo)) (temp_el profiles))
                         (spec_non_sink_sum (length (rho geo)) (temp_ion profiles))) \<and>
         (\<forall>S s. is_sink S \<and> S \<notin> set (map fst (temp_el profiles)) \<longrightarrow>
            Qtot_in geo (profiles\<lparr>temp_el := temp_el profiles @ [(S, s)]\<rparr>) =
            Qtot_in geo profiles)"
proof (intro conjI allI impI)
  show closed: "Qtot_in geo profiles =
           Inr (map2 (+) (spec_non_sink_sum (length (rho geo)) (temp_el profiles))
                         (spec_non_sink_sum (length (rho geo)) (temp_ion profiles)))"
    by (rule Qtot_in_closed [OF assms])
  fix S s
  assume S: "is_sink S \<and> S \<notin> set (map fst (temp_el profiles))"
  let ?more = "profiles\<lparr>temp_el := temp_el profiles @ [(S, s)]\<rparr>"
  have ws: "well_shaped geo ?more"
    using assms(1) S by (simp add: well_shaped_def)
  have d: "distinct (map fst (temp_el ?more))" "distinct (map fst (temp_ion ?more))"
    using assms(2,3) S by simp_all
  have same: "spec_non_sink_sum n (temp_el ?more) = spec_non_sink_sum n (temp_el profiles)" for n
    using S by (simp add: spec_non_sink_sum_def)
  show "Qtot_in geo ?more = Qtot_in geo profiles"
    unfolding closed Qtot_in_closed [OF ws d] same by simp
qed

theorem aggregate_excludes_sinks_witness:
  "well_shaped example_two_cells example_A_B \<and>
   distinct (map fst (temp_el example_A_B)) \<and>
   distinct (map fst (temp_ion example_A_B)) \<and>
   is_sink ''sinkX'' \<and> ''sinkX'' \<notin> set (map fst (temp_el example_A_B)) \<and>
   Qtot_in example_two_cells example_A_B = Inr [4, 6] \<and>
   Qtot_in example_two_cells
     \<lparr>temp_el = [(''A'', [1, 2]), (''B'', [3, 4]), (''sinkX'', [-50, 60])], temp_ion = []\<rparr> =
     Inr [4, 6]"
proof -
  have names: "\<not> is_sink ''A''" "\<not> is_sink ''B''" "is_sink ''sinkX''"
    by code_simp+
  have ws: "well_shaped example_two_cells example_A_B"
    by (simp add: well_shaped_def example_two_cells_def example_A_B_def)
  have d: "distinct (map fst (temp_el example_A_B))"
    "distinct (map fst (temp_ion example_A_B))"
    by (simp_all add: example_A_B_def)
  have fresh: "''sinkX'' \<notin> set (map fst (temp_el example_A_B))"
    by (simp add: example_A_B_def)
  have n: "[0..<length (rho example_two_cells)] = [0, 1]"
    by (simp add: example_two_cells_def upt_rec)
  note agg = aggregate_excludes_sinks [OF ws d]
  from agg have "Qtot_in example_two_cells example_A_B =
          Inr (map2 (+) (spec_non_sink_sum (length (rho example_two_cells)) (temp_el example_A_B))
                        (spec_non_sink_sum (length (rho example_two_cells)) (temp_ion example_A_B)))"
    by (rule conjunct1)
  also have "\<dots> = Inr [4, 6]"
    unfolding spec_non_sink_sum_def n by (simp add: example_A_B_def names)
  finally have base: "Qtot_in example_two_cells example_A_B = Inr [4, 6]" .
  from agg names(3) fresh
  have "Qtot_in example_two_cells
          (example_A_B\<lparr>temp_el := temp_el example_A_B @ [(''sinkX'', [-50, 60])]\<rparr>) =
        Qtot_in example_two_cells example_A_B"
    by blast
  with base have "Qtot_in example_two_cells
     \<lparr>temp_el = [(''A'', [1, 2]), (''B'', [3, 4]), (''sinkX'', [-50, 60])], temp_ion = []\<rparr> =
     Inr [4, 6]"
    by (simp add: example_A_B_def)
  with base ws d names(3) fresh show ?thesis by simp
qed

text \<open>
  Claim C3. Without a container the function never returns: it raises, and once the
  dynamic parameters of the source are found the error is the \<open>ValueError\<close> raised before
  any computation, whose message names the model function.
\<close>

theorem missing_profiles_raise:
  "isl (radially_constant_fraction_of_Pin st dyn geo source_name core None) \<and>
   (sources dyn source_name = Some (ConstantFractionParams dp) \<longrightarrow>
      radially_constant_fraction_of_Pin st dyn geo source_name core None =
        Inl (ValueError missing_profiles_message)) \<and>
   sublist MODEL_FUNCTION_NAME missing_profiles_message"
  by (simp add: radially_constant_fraction_of_Pin_def message_names_model_function
      split: option.splits SourceDynamicRuntimeParams.splits)

theorem missing_profiles_raise_witness:
  "radially_constant_fraction_of_Pin () example_slice example_geo
     ''impurity_radiation_heat_sink'' () None = Inl (ValueError missing_profiles_message)"
  using missing_profiles_raise [of "()" example_slice example_geo
      "''impurity_radiation_heat_sink''" "()" example_params] example_params_present
  by blast

text \<open>
  Claim C5. Every successful call returns a tuple of exactly one per-cell array, the
  contribution to the electron heat equation and to no other equation.
\<close>

theorem single_electron_heat_contribution:
  assumes "radially_constant_fraction_of_Pin st dyn geo source_name core profiles = Inr res"
  shows "\<exists>p. res = [p] \<and> length p = length (rho geo) \<and>
           zip affected_core_profiles res = [(TEMP_EL, p)]"
  using assms
  by (auto simp: radially_constant_fraction_of_Pin_def affected_core_profiles_def
      scalar_mul_def ones_like_def
      split: option.splits SourceDynamicRuntimeParams.splits sum.splits)

theorem single_electron_heat_contribution_witness:
  "radially_constant_fraction_of_Pin () example_slice example_geo
     ''impurity_radiation_heat_sink'' () (Some example_profiles) = Inr [[-1, -1, -1, -1]] \<and>
   (\<exists>p. [[-1, -1, -1, -1 :: real]] = [p] \<and> length p = length (rho example_geo) \<and>
         zip affected_core_profiles [[-1, -1, -1, -1 :: real]] = [(TEMP_EL, p)])"
  using single_electron_heat_contribution [OF example_result] example_result
  by blast

text \<open>
  Claim C6. The fraction is applied multiplicatively without clamping or range check:
  for every real fraction the call succeeds with the value \<open>- fraction * P_in / V_tot\<close>,
  and scaling the fraction scales the profile.
\<close>

theorem fraction_applied_unclamped:
  assumes "well_shaped geo profiles" and "last (volume_face geo) \<noteq> 0"
  shows "\<exists>Q. Qtot_in geo profiles = Inr Q \<and>
           (\<forall>f. radially_constant_fraction_of_Pin st (with_fraction others source_name f)
                   geo source_name core (Some profiles) =
                 Inr [replicate (length (rho geo))
                        (- f * cell_integration (map2 (*) Q (vpr geo)) geo
                           / last (volume_face geo))]) \<and>
           (\<forall>f c p. radially_constant_fraction_of_Pin st (with_fraction others source_name f)
                       geo source_name core (Some profiles) = Inr [p] \<longrightarrow>
                     radially_constant_fraction_of_Pin st
                       (with_fraction others source_name (c * f))
                       geo source_name core (Some profiles) = Inr [scalar_mul c p])"
proof -
  from Qtot_in_returns [OF assms(1)] obtain Q
    where Q: "Qtot_in geo profiles = Inr Q" and lenQ: "length Q = length (rho geo)"
    by blast
  from assms(1) have lenv: "length (vpr geo) = length (rho geo)" and vf: "volume_face geo \<noteq> []"
    unfolding well_shaped_def by blast+
  from lenQ lenv have len: "length Q = length (vpr geo)" by (rule trans [OF _ sym])
  have run: "radially_constant_fraction_of_Pin st (with_fraction others source_name f)
               geo source_name core (Some profiles) =
             Inr [replicate (length (rho geo))
                    (- f * cell_integration (map2 (*) Q (vpr geo)) geo
                       / last (volume_face geo))]" for f
    using model_function_value [OF _ Q len vf, of "with_fraction others source_name f"
        source_name "\<lparr>fraction_of_total_power_density = f\<rparr>" st core]
    by (simp add: with_fraction_def)
  have scale: "radially_constant_fraction_of_Pin st (with_fraction others source_name (c * f))
                 geo source_name core (Some profiles) = Inr [scalar_mul c p]"
    if "radially_constant_fraction_of_Pin st (with_fraction others source_name f)
          geo source_name core (Some profiles) = Inr [p]" for f c p
  proof -
    from that have "p = replicate (length (rho geo))
        (- f * cell_integration (map2 (*) Q (vpr geo)) geo / last (volume_face geo))"
      unfolding run by simp
    then show ?thesis unfolding run by (simp add: scalar_mul_def)
  qed
  show ?thesis
    by (rule exI [of _ Q]) (use Q run scale in blast)
qed

theorem fraction_applied_unclamped_witness:
  "well_shaped example_geo example_profiles \<and> last (volume_face example_geo) \<noteq> 0 \<and>
   radially_constant_fraction_of_Pin () (with_fraction Map.empty ''impurity_radiation_heat_sink'' (-2))
     example_geo ''impurity_radiation_heat_sink'' () (Some example_profiles) =
     Inr [[10, 10, 10, 10]] \<and>
   radially_constant_fraction_of_Pin () (with_fraction Map.empty ''impurity_radiation_heat_sink'' (3/2))
     example_geo ''impurity_radiation_heat_sink'' () (Some example_profiles) =
     Inr [[-15/2, -15/2, -15/2, -15/2]]"
proof -
  have v: "last (volume_face example_geo) \<noteq> 0" by (simp add: example_geo_def)
  from fraction_applied_unclamped [OF example_well_shaped v,
      of "()" Map.empty "''impurity_radiation_heat_sink''" "()"]
  obtain Q where Q: "Qtot_in example_geo example_profiles = Inr Q"
    and r: "\<And>f. radially_constant_fraction_of_Pin ()
          (with_fraction Map.empty ''impurity_radiation_heat_sink'' f) example_geo
          ''impurity_radiation_heat_sink'' () (Some example_profiles) =
        Inr [replicate (length (rho example_geo))
               (- f * cell_integration (map2 (*) Q (vpr example_geo)) example_geo
                  / last (volume_face example_geo))]"
    by blast
  from Q have Q4: "Q = [4, 4, 4, 8]" by (simp add: example_Qtot_in)
  have P: "cell_integration (map2 (*) [4, 4, 4, 8] (vpr example_geo)) example_geo = 5"
    by (simp add: example_geo_def cell_integration_def)
  have n: "replicate (length (rho example_geo)) x = [x, x, x, x]" for x :: real
    by (simp add: example_geo_def)
  have "radially_constant_fraction_of_Pin ()
          (with_fraction Map.empty ''impurity_radiation_heat_sink'' (-2)) example_geo
          ''impurity_radiation_heat_sink'' () (Some example_profiles) = Inr [[10, 10, 10, 10]]"
    unfolding r Q4 P n by (simp add: example_geo_def)
  moreover have "radially_constant_fraction_of_Pin ()
          (with_fraction Map.empty ''impurity_radiation_heat_sink'' (3/2)) example_geo
          ''impurity_radiation_heat_sink'' () (Some example_profiles) =
          Inr [[-15/2, -15/2, -15/2, -15/2]]"
    unfolding r Q4 P n by (simp add: example_geo_def)
  ultimately show ?thesis using example_well_shaped v by simp
qed

text \<open>
  Claim C9. A container that is present but has no electron-heat and no ion-heat entries
  raises nothing: the result is the tuple of the uniformly zero profile.
\<close>

theorem empty_container_gives_zero:
  assumes "sources dyn source_name = Some (ConstantFractionParams dp)"
    and "temp_el profiles = []" and "temp_ion profiles = []"
    and "length (vpr geo) = length (rho geo)"
    and "volume_face geo \<noteq> []"
    and "last (volume_face geo) \<noteq> 0"
  shows "radially_constant_fraction_of_Pin st dyn geo source_name core (Some profiles) =
           Inr [replicate (length (rho geo)) 0]"
proof -
  have Q: "Qtot_in geo profiles = Inr (replicate (length (rho geo)) 0)"
    using assms(2,3) by (simp add: Qtot_in_def zeros_like_def)
  have len: "length (replicate (length (rho geo)) (0::real)) = length (vpr geo)"
    using assms(4) by simp
  show ?thesis
    unfolding model_function_value [OF assms(1) Q len assms(5)] cell_integration_zero
    by simp
qed

theorem empty_container_gives_zero_witness:
  "radially_constant_fraction_of_Pin () example_slice example_geo
     ''impurity_radiation_heat_sink'' () (Some \<lparr>temp_el = [], temp_ion = []\<rparr>) =
     Inr [[0, 0, 0, 0]]"
proof -
  have "radially_constant_fraction_of_Pin () example_slice example_geo
     ''impurity_radiation_heat_sink'' () (Some \<lparr>temp_el = [], temp_ion = []\<rparr>) =
     Inr [replicate (length (rho example_geo)) 0]"
    by (rule empty_container_gives_zero [OF example_params_present])
       (simp_all add: example_geo_def)
  then show ?thesis by (simp add: example_geo_def)
qed

section \<open>Properties of the configuration\<close>




lemma map_sum_eq_Inr: "map_sum f g x = Inr y \<longleftrightarrow> (\<exists>z. x = Inr z \<and> y = g z)"
  by (cases x) auto

lemma constant_series_value:
  "get_value \<lparr>time = [0], value = [x], interpolation_mode = PIECEWISE_LINEAR\<rparr> t = Inr x"
  by (simp add: get_value_def)

text \<open>
  Claim C4. The discriminator is the value of the field \<open>model_func\<close>, verbatim, when the
  field is present, and the tag of the mavrin-fit variant when it is absent; the variant
  is chosen from this tag alone, before any field of the variant is validated.
\<close>

theorem discriminator_defaults_to_mavrin_fit:
  "(map_of model ''model_func'' = Some v \<longrightarrow>
      get_impurity_heat_sink_discriminator_value model = v) \<and>
   (map_of model ''model_func'' = None \<longrightarrow>
      get_impurity_heat_sink_discriminator_value model = PStr ''impurity_radiation_mavrin_fit'' \<and>
      validate_ImpurityRadiationHeatSinkConfig validate_MavrinFitConfig model =
        map_sum id MavrinFit (validate_MavrinFitConfig model)) \<and>
   (map_of model ''model_func'' = Some (PStr ''radially_constant_fraction_of_Pin'') \<longrightarrow>
      validate_ImpurityRadiationHeatSinkConfig validate_MavrinFitConfig model =
        map_sum id ConstantFraction (validate_ConstantFractionConfig model)) \<and>
   (map_of model ''model_func'' = Some (PStr tag) \<and>
    tag \<noteq> ''impurity_radiation_mavrin_fit'' \<and> tag \<noteq> ''radially_constant_fraction_of_Pin'' \<longrightarrow>
      validate_ImpurityRadiationHeatSinkConfig validate_MavrinFitConfig model =
        Inl (ValidationError ''union_tag_invalid''))"
  by (simp add: get_impurity_heat_sink_discriminator_value_def
      validate_ImpurityRadiationHeatSinkConfig_def)

theorem discriminator_defaults_to_mavrin_fit_witness:
  "get_impurity_heat_sink_discriminator_value
     [(''fraction_of_total_power_density'', PNum (3/10))] =
     PStr ''impurity_radiation_mavrin_fit'' \<and>
   validate_ImpurityRadiationHeatSinkConfig Inr
     [(''fraction_of_total_power_density'', PNum (3/10))] =
     Inr (MavrinFit [(''fraction_of_total_power_density'', PNum (3/10))]) \<and>
   get_impurity_heat_sink_discriminator_value
     [(''model_func'', PStr ''radially_constant_fraction_of_Pin'')] =
     PStr ''radially_constant_fraction_of_Pin'' \<and>
   validate_ImpurityRadiationHeatSinkConfig Inr
     [(''model_func'', PStr ''radially_constant_fraction_of_Pin'')] =
     map_sum id ConstantFraction
       (validate_ConstantFractionConfig
          [(''model_func'', PStr ''radially_constant_fraction_of_Pin'')]) \<and>
   validate_ImpurityRadiationHeatSinkConfig Inr
     [(''model_func'', PStr ''no_such_model'')] = Inl (ValidationError ''union_tag_invalid'')"
  using discriminator_defaults_to_mavrin_fit
          [of "[(''fraction_of_total_power_density'', PNum (3/10))]" PNone
              Inr "''no_such_model''"]
        discriminator_defaults_to_mavrin_fit
          [of "[(''model_func'', PStr ''radially_constant_fraction_of_Pin'')]"
              "PStr ''radially_constant_fraction_of_Pin''"
              Inr "''no_such_model''"]
        discriminator_defaults_to_mavrin_fit
          [of "[(''model_func'', PStr ''no_such_model'')]" "PStr ''no_such_model''"
              Inr "''no_such_model''"]
  by simp



text \<open>
  Claim C10. A raw specification that resolves to the constant-fraction variant yields a
  configuration whose \<open>source_name\<close> and \<open>model_func\<close> are the two literals; an omitted
  fraction is the constant 0.1 and an omitted mode is \<open>MODEL_BASED\<close>.
\<close>

theorem constant_fraction_config_defaults:
  assumes "validate_ImpurityRadiationHeatSinkConfig validate_MavrinFitConfig model =
             Inr (ConstantFraction cfg)"
  shows "config_source_name cfg = ''impurity_radiation_heat_sink'' \<and>
         config_model_func cfg = ''radially_constant_fraction_of_Pin'' \<and>
         (map_of model ''fraction_of_total_power_density'' = None \<longrightarrow>
            config_fraction_of_total_power_density cfg =
              \<lparr>time = [0], value = [1/10], interpolation_mode = PIECEWISE_LINEAR\<rparr> \<and>
            (\<forall>t. get_value (config_fraction_of_total_power_density cfg) t = Inr (1/10))) \<and>
         (map_of model ''mode'' = None \<longrightarrow> config_mode cfg = MODEL_BASED)"
proof -
  from assms have v: "validate_ConstantFractionConfig model = Inr cfg"
    by (auto simp: validate_ImpurityRadiationHeatSinkConfig_def map_sum_eq_Inr
        split: pyval.splits if_splits)
  have lit: "validate_Literal field lit model = Inr s \<Longrightarrow> s = lit" for field lit s
    by (auto simp: validate_Literal_def split: option.splits if_splits)
  from v have "config_source_name cfg = ''impurity_radiation_heat_sink''"
    and "config_model_func cfg = ''radially_constant_fraction_of_Pin''"
    by (auto simp: validate_ConstantFractionConfig_def split: sum.splits dest: lit)
  moreover have "config_fraction_of_total_power_density cfg =
      \<lparr>time = [0], value = [1/10], interpolation_mode = PIECEWISE_LINEAR\<rparr>"
    if "map_of model ''fraction_of_total_power_density'' = None"
    using v that
    by (auto simp: validate_ConstantFractionConfig_def ValidatedDefault_fraction_def
        validate_TimeVaryingScalar_def split: sum.splits)
  moreover have "config_mode cfg = MODEL_BASED" if "map_of model ''mode'' = None"
    using v that
    by (auto simp: validate_ConstantFractionConfig_def split: sum.splits)
  ultimately show ?thesis by (simp add: constant_series_value)
qed

theorem constant_fraction_config_defaults_witness:
  "validate_ImpurityRadiationHeatSinkConfig Inr
     [(''model_func'', PStr ''radially_constant_fraction_of_Pin'')] =
     Inr (ConstantFraction
       \<lparr>config_source_name = ''impurity_radiation_heat_sink'',
        config_model_func = ''radially_constant_fraction_of_Pin'',
        config_fraction_of_total_power_density =
          \<lparr>time = [0], value = [1/10], interpolation_mode = PIECEWISE_LINEAR\<rparr>,
        config_mode = MODEL_BASED\<rparr>) \<and>
   get_value \<lparr>time = [0], value = [1/10], interpolation_mode = PIECEWISE_LINEAR\<rparr> 7 =
     Inr (1/10)"
proof -
  let ?cfg = "\<lparr>config_source_name = ''impurity_radiation_heat_sink'',
        config_model_func = ''radially_constant_fraction_of_Pin'',
        config_fraction_of_total_power_density =
          \<lparr>time = [0], value = [1/10], interpolation_mode = PIECEWISE_LINEAR\<rparr>,
        config_mode = MODEL_BASED\<rparr>"
  have r: "validate_ImpurityRadiationHeatSinkConfig Inr
     [(''model_func'', PStr ''radially_constant_fraction_of_Pin'')] =
     Inr (ConstantFraction ?cfg)"
    by (simp add: validate_ImpurityRadiationHeatSinkConfig_def
        get_impurity_heat_sink_discriminator_value_def validate_ConstantFractionConfig_def
        validate_Literal_def ValidatedDefault_fraction_def validate_TimeVaryingScalar_def)
  from constant_fraction_config_defaults [OF r] r show ?thesis by simp
qed

end
